theory Spec2Isabelle
  imports Main
begin

section \<open>JavaScript values\<close>

text \<open>
  The library is TypeScript, and its wrapper \<open>trySafe\<close> handles values of type
  \<open>unknown\<close>: anything a callable may return or throw. The model therefore works on a
  universe of JavaScript values.

  \<^item> Numbers are the integer-valued ones (\<open>int\<close>); fractions, NaN and the infinities are
    outside the model.
  \<^item> An object is the ordered list of its own data properties, as an object literal
    \<open>{ k1: v1, k2: v2 }\<close> creates them. Getters, proxies and changed prototypes are
    outside the model.
  \<^item> \<open>JError name message\<close> is an instance of \<open>Error\<close> or of one of its subclasses.
  \<^item> A function value is opaque: \<open>JFunction src\<close> only carries its source text; what a
    call of it does is a parameter where it matters (\<open>host\<close> below).
  \<^item> Values are compared by content. Which object a reference denotes is treated in the
    section on the store, where objects have addresses.
  \<^item> A promise is seen at two moments: \<open>state_now\<close> is its state when the program looks
    at it, \<open>fate\<close> is the state it has once the event loop has run every job
    (\<open>Unsettled\<close> there: it never settles).
\<close>

datatype 'v settlement = Unsettled | Fulfilled 'v | Rejected 'v

datatype 'v promise = Promise (state_now: "'v settlement") (fate: "'v settlement")

datatype jsval =
    JUndefined
  | JNull
  | JBool bool
  | JNum int
  | JStr string
  | JObject "(string \<times> jsval) list"
  | JError string string
  | JFunction string
  | JPromise (promise_of: "jsval promise")

text \<open>What calling a function does: it returns a value or it throws one.\<close>

datatype completion = Returns jsval | Throws jsval

datatype js_error = TypeError

subsection \<open>Operators of the language\<close>

text \<open>
  \<open>o.k\<close>: reading a property of \<open>undefined\<close> or \<open>null\<close> throws a TypeError; an object
  gives the property's value, or \<open>undefined\<close> when it has no such property. An \<open>Error\<close>
  has \<open>name\<close> and \<open>message\<close>. The other values have none of the properties this
  program reads (\<open>ok\<close>, \<open>value\<close>).
\<close>

fun get_prop :: "jsval \<Rightarrow> string \<Rightarrow> js_error + jsval" where
  "get_prop JUndefined k = Inl TypeError"
| "get_prop JNull k = Inl TypeError"
| "get_prop (JObject ps) k = Inr (case map_of ps k of Some v \<Rightarrow> v | None \<Rightarrow> JUndefined)"
| "get_prop (JError n m) k =
     Inr (if k = ''name'' then JStr n else if k = ''message'' then JStr m else JUndefined)"
| "get_prop v k = Inr JUndefined"

text \<open>The truthiness that \<open>!x\<close> and \<open>x ? a : b\<close> test.\<close>

fun ToBoolean :: "jsval \<Rightarrow> bool" where
  "ToBoolean JUndefined = False"
| "ToBoolean JNull = False"
| "ToBoolean (JBool b) = b"
| "ToBoolean (JNum n) = (n \<noteq> 0)"
| "ToBoolean (JStr s) = (s \<noteq> [])"
| "ToBoolean v = True"

fun instanceof_Promise :: "jsval \<Rightarrow> bool" where
  "instanceof_Promise (JPromise p) = True"
| "instanceof_Promise v = False"

fun instanceof_Error :: "jsval \<Rightarrow> bool" where
  "instanceof_Error (JError n m) = True"
| "instanceof_Error v = False"

text \<open>
  A thenable is what \<open>await\<close> and promise resolution treat as an asynchronous result:
  an object whose \<open>then\<close> property is a function. Every promise is one (it inherits
  \<open>then\<close>); a plain object that has a function under \<open>then\<close> is one too.
\<close>

fun is_thenable :: "jsval \<Rightarrow> bool" where
  "is_thenable (JPromise p) = True"
| "is_thenable (JObject ps) =
     (case map_of ps ''then'' of Some (JFunction f) \<Rightarrow> True | _ \<Rightarrow> False)"
| "is_thenable v = False"

subsection \<open>String conversion and Error construction\<close>

text \<open>
  A safe integer (at most \<open>2^53 - 1\<close> in absolute value) prints in decimal, the most
  significant digit first; the digits are collected from the least significant one, in
  front of those found so far.
\<close>

function decimal :: "nat \<Rightarrow> string \<Rightarrow> string" where
  "decimal n acc =
     (if n < 10 then char_of (48 + n) # acc
      else decimal (n div 10) (char_of (48 + n mod 10) # acc))"
  by pat_completeness auto
termination
  by (relation "measure fst") auto

declare decimal.simps [simp del]

definition integer_digits :: "int \<Rightarrow> string" where
  "integer_digits i =
     (if i < 0 then CHR ''-'' # decimal (nat (- i)) [] else decimal (nat i) [])"

definition safe_integer :: "int \<Rightarrow> bool" where
  "safe_integer n = (- 9007199254740991 \<le> n \<and> n \<le> 9007199254740991)"

text \<open>
  Two things are left to the host, as parameters: what the call of a function value as
  a method of an object returns or throws (function values are opaque), and how a
  number beyond the safe integers prints (that is floating-point formatting, with an
  exponent from \<open>10^21\<close> on).
\<close>

record host =
  call_method :: "jsval \<Rightarrow> jsval \<Rightarrow> completion"
  number_text :: "int \<Rightarrow> string"

text \<open>\<open>String(n)\<close> for a number: a safe integer prints as its decimal digits.\<close>

definition Number_toString :: "host \<Rightarrow> int \<Rightarrow> string" where
  "Number_toString h n = (if safe_integer n then integer_digits n else number_text h n)"

text \<open>The string of a primitive value; an object, a function or a promise is none.\<close>

fun primitive_text :: "host \<Rightarrow> jsval \<Rightarrow> string option" where
  "primitive_text h JUndefined = Some ''undefined''"
| "primitive_text h JNull = Some ''null''"
| "primitive_text h (JBool b) = Some (if b then ''true'' else ''false'')"
| "primitive_text h (JNum n) = Some (Number_toString h n)"
| "primitive_text h (JStr s) = Some s"
| "primitive_text h v = None"

text \<open>
  \<open>String(o)\<close> for a plain object converts it to a primitive with the hint "string":
  first \<open>o.toString\<close>, then \<open>o.valueOf\<close>. A method that is callable is called; a
  primitive it returns is the result (as a string), an object it returns is passed
  over, what it throws is thrown. When neither gives a primitive, a TypeError is
  thrown. Without an own \<open>toString\<close> the inherited one answers \<open>[object Object]\<close>;
  the inherited \<open>valueOf\<close> returns the object itself, which is no primitive.
\<close>

definition cannot_convert :: jsval where
  "cannot_convert = JError ''TypeError'' ''Cannot convert object to primitive value''"

definition method_text :: "host \<Rightarrow> jsval \<Rightarrow> jsval \<Rightarrow> (jsval + string) option" where
  "method_text h f this =
     (case call_method h f this of
        Throws x \<Rightarrow> Some (Inl x)
      | Returns r \<Rightarrow> map_option Inr (primitive_text h r))"

definition valueOf_text :: "host \<Rightarrow> (string \<times> jsval) list \<Rightarrow> jsval + string" where
  "valueOf_text h ps =
     (case map_of ps ''valueOf'' of
        Some (JFunction g) \<Rightarrow>
          (case method_text h (JFunction g) (JObject ps) of
             Some r \<Rightarrow> r
           | None \<Rightarrow> Inl cannot_convert)
      | _ \<Rightarrow> Inl cannot_convert)"

definition object_text :: "host \<Rightarrow> (string \<times> jsval) list \<Rightarrow> jsval + string" where
  "object_text h ps =
     (case map_of ps ''toString'' of
        None \<Rightarrow> Inr ''[object Object]''
      | Some (JFunction f) \<Rightarrow>
          (case method_text h (JFunction f) (JObject ps) of
             Some r \<Rightarrow> r
           | None \<Rightarrow> valueOf_text h ps)
      | Some _ \<Rightarrow> valueOf_text h ps)"

text \<open>
  \<open>String(v)\<close>: \<open>Inr\<close> the string, or \<open>Inl\<close> the value the conversion throws. An
  \<open>Error\<close> prints through \<open>Error.prototype.toString\<close>, a function as its source text,
  a promise through \<open>Object.prototype.toString\<close>.
\<close>

fun js_String :: "host \<Rightarrow> jsval \<Rightarrow> jsval + string" where
  "js_String h JUndefined = Inr ''undefined''"
| "js_String h JNull = Inr ''null''"
| "js_String h (JBool b) = Inr (if b then ''true'' else ''false'')"
| "js_String h (JNum n) = Inr (Number_toString h n)"
| "js_String h (JStr s) = Inr s"
| "js_String h (JObject ps) = object_text h ps"
| "js_String h (JError n m) = Inr (if n = [] then m else if m = [] then n else n @ '': '' @ m)"
| "js_String h (JFunction src) = Inr src"
| "js_String h (JPromise p) = Inr ''[object Promise]''"


definition new_Error :: "string \<Rightarrow> jsval" where
  "new_Error message = JError ''Error'' message"

subsection \<open>Promise.prototype.then and Promise.prototype.catch\<close>

text \<open>
  Resolving a promise with the value a callback returned: another promise is adopted,
  any other value fulfils. The callbacks of this program return fresh records with the
  keys \<open>ok\<close>, \<open>value\<close> and \<open>error\<close> only, so a thenable object is never resolved with
  (lemma \<open>record_not_thenable\<close> below), and its \<open>then\<close> is not modelled.
\<close>

fun resolve_with :: "jsval \<Rightarrow> jsval settlement" where
  "resolve_with (JPromise p) = fate p"
| "resolve_with v = Fulfilled v"

text \<open>
  \<open>p.then(onFulfilled)\<close> and \<open>p.catch(onRejected)\<close> return a new promise. It is pending
  when it is returned, also when \<open>p\<close> is settled already: the callback runs in a later
  job. The callbacks here are arrow functions that build a record and cannot throw.
\<close>

definition Promise_then :: "jsval promise \<Rightarrow> (jsval \<Rightarrow> jsval) \<Rightarrow> jsval promise" where
  "Promise_then p onFulfilled =
     Promise Unsettled
       (case fate p of
          Unsettled \<Rightarrow> Unsettled
        | Fulfilled v \<Rightarrow> resolve_with (onFulfilled v)
        | Rejected r \<Rightarrow> Rejected r)"

definition Promise_catch :: "jsval promise \<Rightarrow> (jsval \<Rightarrow> jsval) \<Rightarrow> jsval promise" where
  "Promise_catch p onRejected =
     Promise Unsettled
       (case fate p of
          Unsettled \<Rightarrow> Unsettled
        | Fulfilled v \<Rightarrow> Fulfilled v
        | Rejected r \<Rightarrow> resolve_with (onRejected r))"

text \<open>
  \<open>p.catch(onRejected)\<close> for a callback that may throw: what it throws is the reason
  the new promise rejects with.
\<close>

definition Promise_catch_throwing ::
  "jsval promise \<Rightarrow> (jsval \<Rightarrow> completion) \<Rightarrow> jsval promise" where
  "Promise_catch_throwing p onRejected =
     Promise Unsettled
       (case fate p of
          Unsettled \<Rightarrow> Unsettled
        | Fulfilled v \<Rightarrow> Fulfilled v
        | Rejected r \<Rightarrow>
            (case onRejected r of
               Returns x \<Rightarrow> resolve_with x
             | Throws x \<Rightarrow> Rejected x))"

section \<open>The Result module (src/result/index.ts)\<close>

text \<open>
  \<open>type Result<T, E> = Ok<T> | Err<E>\<close> with \<open>Ok<T> = { ok: true; value: T }\<close> and
  \<open>Err<E> = { ok: false; error: E }\<close>: the objects of that shape.
\<close>

fun is_Result :: "jsval \<Rightarrow> bool" where
  "is_Result (JObject ps) =
     (case map_of ps ''ok'' of
        Some (JBool b) \<Rightarrow>
          (if b then map_of ps ''value'' \<noteq> None else map_of ps ''error'' \<noteq> None)
      | _ \<Rightarrow> False)"
| "is_Result v = False"

text \<open>\<open>ok: (value) => ({ ok: true, value })\<close>\<close>

definition Result_ok :: "jsval \<Rightarrow> jsval" where
  "Result_ok value = JObject [(''ok'', JBool True), (''value'', value)]"

text \<open>\<open>err: (error) => ({ ok: false, error })\<close>\<close>

definition Result_err :: "jsval \<Rightarrow> jsval" where
  "Result_err error = JObject [(''ok'', JBool False), (''error'', error)]"

text \<open>\<open>isOk: (result) => result.ok\<close>\<close>

definition isOk :: "jsval \<Rightarrow> js_error + jsval" where
  "isOk result = get_prop result ''ok''"

text \<open>\<open>isErr: (result) => !result.ok\<close>\<close>

definition isErr :: "jsval \<Rightarrow> js_error + jsval" where
  "isErr result =
     (case get_prop result ''ok'' of
        Inl e \<Rightarrow> Inl e
      | Inr b \<Rightarrow> Inr (JBool (\<not> ToBoolean b)))"

text \<open>\<open>unwrapOr: (result, defaultValue) => result.ok ? result.value : defaultValue\<close>\<close>

definition unwrapOr :: "jsval \<Rightarrow> jsval \<Rightarrow> js_error + jsval" where
  "unwrapOr result defaultValue =
     (case get_prop result ''ok'' of
        Inl e \<Rightarrow> Inl e
      | Inr b \<Rightarrow> if ToBoolean b then get_prop result ''value'' else Inr defaultValue)"

section \<open>The wrapper trySafe\<close>

text \<open>
  The exported wrapper (src/try-safe/index.ts). The callable takes no argument; the
  \<open>try\<close> block covers its call, so what it throws reaches the \<open>catch\<close> block.
  \<^verbatim>\<open>
  try {
    const result = fn();
    if (result instanceof Promise) {
      return result
        .then((value) => ({ ok: true, value }))
        .catch((error) => ({ ok: false, error }));
    }
    return { ok: true, value: result };
  } catch (error) {
    return { ok: false, error };
  }
  \<close>
\<close>

definition trySafe :: "(unit \<Rightarrow> completion) \<Rightarrow> jsval" where
  "trySafe fn =
     (case fn () of
        Returns result \<Rightarrow>
          if instanceof_Promise result then
            JPromise
              (Promise_catch
                 (Promise_then (promise_of result)
                    (\<lambda>value. JObject [(''ok'', JBool True), (''value'', value)]))
                 (\<lambda>error. JObject [(''ok'', JBool False), (''error'', error)]))
          else JObject [(''ok'', JBool True), (''value'', result)]
      | Throws error \<Rightarrow> JObject [(''ok'', JBool False), (''error'', error)])"

text \<open>
  The earlier variant of the wrapper (src/unnamed/part_000, also named \<open>trySafe\<close>
  there): the same control flow, with the payload of a failure
  \<open>e instanceof Error ? e : new Error(String(e))\<close>. That expression stands in the
  \<open>catch\<close> block and in the callback given to \<open>.catch\<close>, and nothing encloses it: when
  \<open>String(e)\<close> throws, the wrapper throws, or the promise it returned rejects. The
  conversion \<open>String\<close> is a parameter (\<open>Inl\<close>: the value it throws), so what is proved
  holds for whatever the built-in does.
  \<^verbatim>\<open>
  try {
    const result = fn();
    if (result instanceof Promise) {
      return result
        .then((value) => ({ ok: true, value }))
        .catch((e) => ({
          ok: false,
          error: e instanceof Error ? e : new Error(String(e)),
        }));
    }
    return { ok: true, value: result };
  } catch (e) {
    return { ok: false, error: e instanceof Error ? e : new Error(String(e)) };
  }
  \<close>
\<close>

definition normalize_error :: "(jsval \<Rightarrow> jsval + string) \<Rightarrow> jsval \<Rightarrow> jsval + jsval" where
  "normalize_error String e =
     (if instanceof_Error e then Inr e
      else (case String e of Inl x \<Rightarrow> Inl x | Inr s \<Rightarrow> Inr (new_Error s)))"

text \<open>\<open>(e) => ({ ok: false, error: e instanceof Error ? e : new Error(String(e)) })\<close>\<close>

definition failure_part_000 :: "(jsval \<Rightarrow> jsval + string) \<Rightarrow> jsval \<Rightarrow> completion" where
  "failure_part_000 String e =
     (case normalize_error String e of
        Inl x \<Rightarrow> Throws x
      | Inr error \<Rightarrow> Returns (JObject [(''ok'', JBool False), (''error'', error)]))"

definition trySafe_part_000 ::
  "(jsval \<Rightarrow> jsval + string) \<Rightarrow> (unit \<Rightarrow> completion) \<Rightarrow> completion" where
  "trySafe_part_000 String fn =
     (case fn () of
        Returns result \<Rightarrow>
          if instanceof_Promise result then
            Returns (JPromise
              (Promise_catch_throwing
                 (Promise_then (promise_of result)
                    (\<lambda>value. JObject [(''ok'', JBool True), (''value'', value)]))
                 (failure_part_000 String)))
          else Returns (JObject [(''ok'', JBool True), (''value'', result)])
      | Throws e \<Rightarrow> failure_part_000 String e)"

subsection \<open>Callables\<close>

text \<open>
  The two simplest zero-argument callables: \<open>() => v\<close> and \<open>() => { throw e }\<close>.
  With \<open>v\<close> a promise the first one is also what an \<open>async\<close> arrow function is to its
  caller.
\<close>

definition returning :: "jsval \<Rightarrow> unit \<Rightarrow> completion" where
  "returning v u = Returns v"

definition throwing :: "jsval \<Rightarrow> unit \<Rightarrow> completion" where
  "throwing e u = Throws e"

section \<open>The wrapper on a store\<close>

text \<open>
  The values above are compared by their content. Which object a reference denotes is a
  question for a store: objects, errors, functions and promises live in cells, a cell
  has an address, and a value is a primitive or the address of a cell. Two references
  are the same object when the addresses are equal. Allocation appends a cell, so the
  address of a new object is the length of the store before; a promise cell holds the
  state the promise has at that moment and is overwritten when the promise settles.
\<close>

type_synonym addr = nat

datatype hval = HUndefined | HNull | HBool bool | HNum int | HStr string | HRef (address_of: addr)

datatype cell =
    Object "(string \<times> hval) list"
  | ErrorObject string string
  | FunctionObject string
  | PromiseObject "hval settlement"

type_synonym store = "cell list"

datatype hcompletion = HReturns hval | HThrows hval

text \<open>\<open>v instanceof Promise\<close>: \<open>v\<close> is the address of a promise cell.\<close>

definition instanceof_Promise_at :: "store \<Rightarrow> hval \<Rightarrow> bool" where
  "instanceof_Promise_at s v =
     (case v of
        HRef a \<Rightarrow> a < length s \<and> (case s ! a of PromiseObject st \<Rightarrow> True | _ \<Rightarrow> False)
      | _ \<Rightarrow> False)"

text \<open>
  The exported \<open>trySafe\<close> again, on the store. A callable runs on the store, may change
  it, and returns or throws a value. The call gives the value returned, the store then,
  and the reaction it has registered, if any.

  On a promise, \<open>.then(...)\<close> allocates a pending promise and \<open>.catch(...)\<close> a second one,
  which is returned; the reaction is the triple of the addresses of the source promise
  and of these two. In the other two branches the record is allocated and returned.
\<close>

type_synonym reaction = "addr \<times> addr \<times> addr"

definition trySafe_store ::
  "(store \<Rightarrow> hcompletion \<times> store) \<Rightarrow> store \<Rightarrow> hval \<times> store \<times> reaction option" where
  "trySafe_store fn s =
     (case fn s of
        (HReturns result, s1) \<Rightarrow>
          if instanceof_Promise_at s1 result then
            (HRef (length s1 + 1),
             s1 @ [PromiseObject Unsettled, PromiseObject Unsettled],
             Some (address_of result, length s1, length s1 + 1))
          else
            (HRef (length s1),
             s1 @ [Object [(''ok'', HBool True), (''value'', result)]],
             None)
      | (HThrows error, s1) \<Rightarrow>
          (HRef (length s1),
           s1 @ [Object [(''ok'', HBool False), (''error'', error)]],
           None))"

text \<open>
  The reaction runs in a later job, on the store of that moment, once the source promise
  has settled and while the returned promise is pending. If the source is fulfilled
  with \<open>value\<close>, the callback \<open>(value) => ({ ok: true, value })\<close> allocates its record,
  the first promise is fulfilled with it and the second one follows. If the source is
  rejected with \<open>error\<close>, the first promise is rejected with it, the callback
  \<open>(error) => ({ ok: false, error })\<close> allocates its record, and the second promise is
  fulfilled with it.
\<close>

definition run_reaction :: "reaction \<Rightarrow> store \<Rightarrow> store" where
  "run_reaction r s =
     (case r of (src, a_then, a_catch) \<Rightarrow>
        if src < length s \<and> a_catch < length s \<and> s ! a_catch = PromiseObject Unsettled then
          (case s ! src of
             PromiseObject (Fulfilled value) \<Rightarrow>
               s[a_then := PromiseObject (Fulfilled (HRef (length s))),
                 a_catch := PromiseObject (Fulfilled (HRef (length s)))]
               @ [Object [(''ok'', HBool True), (''value'', value)]]
           | PromiseObject (Rejected error) \<Rightarrow>
               s[a_then := PromiseObject (Rejected error),
                 a_catch := PromiseObject (Fulfilled (HRef (length s)))]
               @ [Object [(''ok'', HBool False), (''error'', error)]]
           | _ \<Rightarrow> s)
        else s)"

text \<open>
  Callables on the store: \<open>() => v\<close> and \<open>() => { throw e }\<close> for a value at hand, and
  \<open>() => { throw new ... }\<close>, which allocates what it throws.
\<close>

definition returning_at :: "hval \<Rightarrow> store \<Rightarrow> hcompletion \<times> store" where
  "returning_at v s = (HReturns v, s)"

definition throwing_at :: "hval \<Rightarrow> store \<Rightarrow> hcompletion \<times> store" where
  "throwing_at e s = (HThrows e, s)"

definition throwing_new :: "cell \<Rightarrow> store \<Rightarrow> hcompletion \<times> store" where
  "throwing_new c s = (HThrows (HRef (length s)), s @ [c])"

section \<open>Facts about the model\<close>

lemma record_not_thenable:
  "\<not> is_thenable (JObject [(''ok'', b), (''value'', v)])"
  "\<not> is_thenable (JObject [(''ok'', b), (''error'', e)])"
  by simp_all

lemma fate_wrapped:
  "fate (Promise_catch
           (Promise_then p (\<lambda>value. JObject [(''ok'', JBool True), (''value'', value)]))
           (\<lambda>error. JObject [(''ok'', JBool False), (''error'', g error)])) =
   (case fate p of
      Unsettled \<Rightarrow> Unsettled
    | Fulfilled v \<Rightarrow> Fulfilled (Result_ok v)
    | Rejected r \<Rightarrow> Fulfilled (Result_err (g r)))"
  by (simp add: Promise_catch_def Promise_then_def Result_ok_def Result_err_def
           split: settlement.split)

lemma state_now_wrapped: "state_now (Promise_catch q h) = Unsettled"
  by (simp add: Promise_catch_def)

lemma trySafe_on_promise:
  "fn () = Returns (JPromise p) \<Longrightarrow>
     trySafe fn =
       JPromise (Promise_catch
         (Promise_then p (\<lambda>value. JObject [(''ok'', JBool True), (''value'', value)]))
         (\<lambda>error. JObject [(''ok'', JBool False), (''error'', error)]))"
  by (simp add: trySafe_def)

lemma fate_trySafe:
  "fn () = Returns (JPromise p) \<Longrightarrow>
     fate (promise_of (trySafe fn)) =
       (case fate p of
          Unsettled \<Rightarrow> Unsettled
        | Fulfilled v \<Rightarrow> Fulfilled (Result_ok v)
        | Rejected r \<Rightarrow> Fulfilled (Result_err r))"
  using fate_wrapped [of p "\<lambda>x. x"] by (simp add: trySafe_on_promise)






lemma js_String_not_callable:
  "js_String h (JObject [(''toString'', JNum 1)]) = Inl cannot_convert"
  by (simp add: object_text_def valueOf_text_def)

lemma js_String_own_toString:
  "call_method h (JFunction f) (JObject [(''toString'', JFunction f)]) = Returns (JNum 42) \<Longrightarrow>
     js_String h (JObject [(''toString'', JFunction f)]) = Inr (Number_toString h 42)"
  by (simp add: object_text_def method_text_def)

lemma js_String_beyond_safe:
  "\<not> safe_integer n \<Longrightarrow> js_String h (JNum n) = Inr (number_text h n)"
  by (simp add: Number_toString_def)

lemma trySafe_part_000_rejects:
  "trySafe_part_000 (js_String h)
      (returning (JPromise (Promise Unsettled (Rejected (JObject [(''toString'', JNum 1)]))))) =
     Returns (JPromise (Promise Unsettled (Rejected cannot_convert)))"
  by (simp add: trySafe_part_000_def returning_def Promise_catch_throwing_def Promise_then_def
        failure_part_000_def normalize_error_def object_text_def valueOf_text_def)


lemma is_Result_cases:
  assumes "is_Result r"
  obtains ps where "r = JObject ps" "map_of ps ''ok'' = Some (JBool True)"
                    "map_of ps ''value'' \<noteq> None"
  | ps where "r = JObject ps" "map_of ps ''ok'' = Some (JBool False)"
             "map_of ps ''error'' \<noteq> None"
proof (cases r)
  case (JObject ps)
  with assms show ?thesis
    by (auto split: option.splits jsval.splits if_splits intro: that)
qed (use assms in simp_all)

section \<open>The wrapper: synchronous results\<close>

text \<open>
  C1. When the callable throws, \<open>trySafe\<close> returns the failure record
  \<open>{ ok: false, error }\<close> holding the thrown value, and when the callable returns a value
  that is not a promise, it returns the success record \<open>{ ok: true, value }\<close>. In both
  cases what is returned is the record itself, not a promise: neither \<open>then\<close> nor
  \<open>catch\<close> is involved.
\<close>

theorem trySafe_synchronous:
  "(fn () = Throws e \<longrightarrow>
      trySafe fn = Result_err e \<and> \<not> instanceof_Promise (trySafe fn)) \<and>
   (fn () = Returns v \<and> \<not> instanceof_Promise v \<longrightarrow>
      trySafe fn = Result_ok v \<and> \<not> instanceof_Promise (trySafe fn))"
  by (simp add: trySafe_def Result_ok_def Result_err_def)

theorem trySafe_synchronous_witness:
  "trySafe (throwing (JStr ''sync boom'')) =
     JObject [(''ok'', JBool False), (''error'', JStr ''sync boom'')] \<and>
   trySafe (returning (JNum 100)) = JObject [(''ok'', JBool True), (''value'', JNum 100)]"
  using trySafe_synchronous [of "throwing (JStr ''sync boom'')" "JStr ''sync boom''" JUndefined]
        trySafe_synchronous [of "returning (JNum 100)" JUndefined "JNum 100"]
  by (simp add: returning_def throwing_def Result_ok_def Result_err_def)

section \<open>The wrapper: promises\<close>

text \<open>
  C2. When the callable returns a promise, \<open>trySafe\<close> returns a promise that is pending
  at that moment. If the source never settles, neither does it; if the source fulfils
  with \<open>v\<close> it fulfils with \<open>{ ok: true, value: v }\<close>; if the source rejects with \<open>r\<close> it
  fulfils with \<open>{ ok: false, error: r }\<close>. It never rejects.
\<close>

theorem trySafe_promise:
  "fn () = Returns (JPromise p) \<Longrightarrow>
     instanceof_Promise (trySafe fn) \<and>
     state_now (promise_of (trySafe fn)) = Unsettled \<and>
     (fate p = Unsettled \<longrightarrow> fate (promise_of (trySafe fn)) = Unsettled) \<and>
     (\<forall>v. fate p = Fulfilled v \<longrightarrow> fate (promise_of (trySafe fn)) = Fulfilled (Result_ok v)) \<and>
     (\<forall>r. fate p = Rejected r \<longrightarrow> fate (promise_of (trySafe fn)) = Fulfilled (Result_err r)) \<and>
     (\<forall>r. fate (promise_of (trySafe fn)) \<noteq> Rejected r)"
proof -
  assume call: "fn () = Returns (JPromise p)"
  have pending: "state_now (promise_of (trySafe fn)) = Unsettled"
    using call by (simp add: trySafe_on_promise state_now_wrapped)
  have is_promise: "instanceof_Promise (trySafe fn)"
    using call by (simp add: trySafe_on_promise)
  show ?thesis
    using pending is_promise fate_trySafe [of fn p] call by (simp split: settlement.split)
qed

theorem trySafe_promise_witness:
  "fate (promise_of (trySafe (returning
      (JPromise (Promise (Fulfilled (JStr ''async success'')) (Fulfilled (JStr ''async success''))))))) =
     Fulfilled (JObject [(''ok'', JBool True), (''value'', JStr ''async success'')]) \<and>
   fate (promise_of (trySafe (returning
      (JPromise (Promise Unsettled (Rejected (JStr ''async string fail''))))))) =
     Fulfilled (JObject [(''ok'', JBool False), (''error'', JStr ''async string fail'')]) \<and>
   state_now (promise_of (trySafe (returning
      (JPromise (Promise Unsettled (Rejected (JStr ''async string fail''))))))) = Unsettled"
  using trySafe_promise [of "returning
          (JPromise (Promise (Fulfilled (JStr ''async success'')) (Fulfilled (JStr ''async success''))))"
          "Promise (Fulfilled (JStr ''async success'')) (Fulfilled (JStr ''async success''))"]
        trySafe_promise [of "returning
          (JPromise (Promise Unsettled (Rejected (JStr ''async string fail''))))"
          "Promise Unsettled (Rejected (JStr ''async string fail''))"]
  by (simp add: returning_def Result_ok_def Result_err_def)

section \<open>The payload of a failure\<close>

text \<open>
  C3. The exported \<open>trySafe\<close> keeps what was raised, whatever kind of value it is: a
  string, a number, a plain object.

  By content: the \<open>error\<close> of the failure record is the thrown value, and for a promise
  that rejects, the rejection reason.

  By identity, on the store: when the callable throws \<open>e\<close>, the failure record is a
  new cell whose \<open>error\<close> field holds \<open>e\<close> itself (for a reference, the same address);
  the cells that were there are unchanged, and the record is none of them. When the
  callable returns a promise that is rejected with \<open>e\<close>, the reaction allocates the
  failure record with \<open>e\<close> itself in its \<open>error\<close> field, fulfils the returned promise
  with it, and changes no other cell than the two promises of the wrapper.
\<close>

theorem trySafe_preserves_raised_value:
  "(fn () = Throws e \<longrightarrow>
      get_prop (trySafe fn) ''ok'' = Inr (JBool False) \<and>
      get_prop (trySafe fn) ''error'' = Inr e) \<and>
   (fn () = Returns (JPromise p) \<and> fate p = Rejected e \<longrightarrow>
      (\<exists>r. fate (promise_of (trySafe fn)) = Fulfilled r \<and>
           get_prop r ''ok'' = Inr (JBool False) \<and>
           get_prop r ''error'' = Inr e)) \<and>
   (f s = (HThrows x, s1) \<longrightarrow>
      trySafe_store f s =
        (HRef (length s1), s1 @ [Object [(''ok'', HBool False), (''error'', x)]], None) \<and>
      (\<forall>b. x = HRef b \<and> b < length s1 \<longrightarrow>
         fst (trySafe_store f s) \<noteq> x \<and> fst (snd (trySafe_store f s)) ! b = s1 ! b)) \<and>
   (f s = (HReturns (HRef src), s1) \<and> instanceof_Promise_at s1 (HRef src) \<longrightarrow>
      trySafe_store f s =
        (HRef (length s1 + 1),
         s1 @ [PromiseObject Unsettled, PromiseObject Unsettled],
         Some (src, length s1, length s1 + 1)) \<and>
      (\<forall>s'. length s1 + 2 \<le> length s' \<and>
            s' ! src = PromiseObject (Rejected x) \<and>
            s' ! (length s1 + 1) = PromiseObject Unsettled \<longrightarrow>
         run_reaction (src, length s1, length s1 + 1) s' ! (length s1 + 1) =
           PromiseObject (Fulfilled (HRef (length s'))) \<and>
         run_reaction (src, length s1, length s1 + 1) s' ! (length s') =
           Object [(''ok'', HBool False), (''error'', x)] \<and>
         length (run_reaction (src, length s1, length s1 + 1) s') = length s' + 1 \<and>
         (\<forall>b < length s'. b \<noteq> length s1 \<and> b \<noteq> length s1 + 1 \<longrightarrow>
            run_reaction (src, length s1, length s1 + 1) s' ! b = s' ! b)))"
proof (intro conjI impI allI)
  assume "fn () = Throws e"
  then have "trySafe fn = JObject [(''ok'', JBool False), (''error'', e)]"
    by (simp add: trySafe_def)
  then show "get_prop (trySafe fn) ''ok'' = Inr (JBool False)"
    and "get_prop (trySafe fn) ''error'' = Inr e"
    by simp_all
next
  assume "fn () = Returns (JPromise p) \<and> fate p = Rejected e"
  then have "fate (promise_of (trySafe fn)) = Fulfilled (Result_err e)"
    by (simp add: fate_trySafe)
  moreover have "get_prop (Result_err e) ''ok'' = Inr (JBool False)"
    and "get_prop (Result_err e) ''error'' = Inr e"
    by (simp_all add: Result_err_def)
  ultimately show "\<exists>r. fate (promise_of (trySafe fn)) = Fulfilled r \<and>
      get_prop r ''ok'' = Inr (JBool False) \<and> get_prop r ''error'' = Inr e"
    by blast
next
  assume thrown: "f s = (HThrows x, s1)"
  then show result: "trySafe_store f s =
      (HRef (length s1), s1 @ [Object [(''ok'', HBool False), (''error'', x)]], None)"
    by (simp add: trySafe_store_def)
  fix b
  assume "x = HRef b \<and> b < length s1"
  then show "fst (trySafe_store f s) \<noteq> x"
    and "fst (snd (trySafe_store f s)) ! b = s1 ! b"
    unfolding result by (simp_all add: nth_append)
next
  assume "f s = (HReturns (HRef src), s1) \<and> instanceof_Promise_at s1 (HRef src)"
  then show "trySafe_store f s =
      (HRef (length s1 + 1),
       s1 @ [PromiseObject Unsettled, PromiseObject Unsettled],
       Some (src, length s1, length s1 + 1))"
    by (simp add: trySafe_store_def)
next
  fix s'
  assume "f s = (HReturns (HRef src), s1) \<and> instanceof_Promise_at s1 (HRef src)"
  then have src: "src < length s1"
    by (simp add: instanceof_Promise_at_def)
  assume later: "length s1 + 2 \<le> length s' \<and>
      s' ! src = PromiseObject (Rejected x) \<and>
      s' ! (length s1 + 1) = PromiseObject Unsettled"
  have run: "run_reaction (src, length s1, length s1 + 1) s' =
      s'[length s1 := PromiseObject (Rejected x),
         length s1 + 1 := PromiseObject (Fulfilled (HRef (length s')))]
      @ [Object [(''ok'', HBool False), (''error'', x)]]"
    using src later by (simp add: run_reaction_def)
  show "run_reaction (src, length s1, length s1 + 1) s' ! (length s1 + 1) =
      PromiseObject (Fulfilled (HRef (length s')))"
    unfolding run using later by (simp add: nth_append)
  show "run_reaction (src, length s1, length s1 + 1) s' ! (length s') =
      Object [(''ok'', HBool False), (''error'', x)]"
    unfolding run by (simp add: nth_append)
  show "length (run_reaction (src, length s1, length s1 + 1) s') = length s' + 1"
    unfolding run by simp
  show "run_reaction (src, length s1, length s1 + 1) s' ! b = s' ! b"
    if "b < length s'" and "b \<noteq> length s1 \<and> b \<noteq> length s1 + 1" for b
    unfolding run using that by (simp add: nth_append)
qed

theorem trySafe_preserves_raised_value_witness:
  "get_prop (trySafe (throwing (JStr ''string error''))) ''error'' = Inr (JStr ''string error'') \<and>
   get_prop (trySafe (throwing (JNum 404))) ''error'' = Inr (JNum 404) \<and>
   get_prop (trySafe (throwing
       (JObject [(''code'', JNum 404), (''reason'', JStr ''User not found'')]))) ''error'' =
     Inr (JObject [(''code'', JNum 404), (''reason'', JStr ''User not found'')]) \<and>
   (\<exists>r. fate (promise_of (trySafe (returning
            (JPromise (Promise (Rejected (JStr ''async string fail''))
                               (Rejected (JStr ''async string fail''))))))) = Fulfilled r \<and>
        get_prop r ''error'' = Inr (JStr ''async string fail'')) \<and>
   trySafe_store (throwing_at (HStr ''string error'')) [] =
     (HRef 0, [Object [(''ok'', HBool False), (''error'', HStr ''string error'')]], None) \<and>
   trySafe_store
       (throwing_new (Object [(''code'', HNum 404), (''reason'', HStr ''User not found'')])) [] =
     (HRef 1,
      [Object [(''code'', HNum 404), (''reason'', HStr ''User not found'')],
       Object [(''ok'', HBool False), (''error'', HRef 0)]],
      None) \<and>
   trySafe_store (returning_at (HRef 0)) [PromiseObject Unsettled] =
     (HRef 2,
      [PromiseObject Unsettled, PromiseObject Unsettled, PromiseObject Unsettled],
      Some (0, 1, 2)) \<and>
   run_reaction (0, 1, 2)
       [PromiseObject (Rejected (HRef 3)), PromiseObject Unsettled, PromiseObject Unsettled,
        ErrorObject ''Error'' ''async boom''] ! 2 =
     PromiseObject (Fulfilled (HRef 4)) \<and>
   run_reaction (0, 1, 2)
       [PromiseObject (Rejected (HRef 3)), PromiseObject Unsettled, PromiseObject Unsettled,
        ErrorObject ''Error'' ''async boom''] ! 4 =
     Object [(''ok'', HBool False), (''error'', HRef 3)] \<and>
   run_reaction (0, 1, 2)
       [PromiseObject (Rejected (HRef 3)), PromiseObject Unsettled, PromiseObject Unsettled,
        ErrorObject ''Error'' ''async boom''] ! 3 =
     ErrorObject ''Error'' ''async boom''"
proof -
  let ?plain = "Object [(''code'', HNum 404), (''reason'', HStr ''User not found'')]"
  let ?later = "[PromiseObject (Rejected (HRef 3)), PromiseObject Unsettled,
                 PromiseObject Unsettled, ErrorObject ''Error'' ''async boom'']"
  let ?idle = "Promise Unsettled Unsettled"
  let ?rejected = "Promise (Rejected (JStr ''async string fail''))
                           (Rejected (JStr ''async string fail''))"
  note string_thrown =
    trySafe_preserves_raised_value
      [of "throwing (JStr ''string error'')" "JStr ''string error''" ?idle
          "throwing_at (HStr ''string error'')" "[]" "HStr ''string error''" "[]" 0]
  note number_thrown =
    trySafe_preserves_raised_value
      [of "throwing (JNum 404)" "JNum 404" ?idle
          "throwing_at (HStr ''string error'')" "[]" "HStr ''string error''" "[]" 0]
  note object_thrown =
    trySafe_preserves_raised_value
      [of "throwing (JObject [(''code'', JNum 404), (''reason'', JStr ''User not found'')])"
          "JObject [(''code'', JNum 404), (''reason'', JStr ''User not found'')]" ?idle
          "throwing_new ?plain" "[]" "HRef 0" "[?plain]" 0]
  note rejected =
    trySafe_preserves_raised_value
      [of "returning (JPromise ?rejected)" "JStr ''async string fail''" ?rejected
          "returning_at (HRef 0)" "[PromiseObject Unsettled]" "HRef 3"
          "[PromiseObject Unsettled]" 0]
  have by_content:
    "get_prop (trySafe (throwing (JStr ''string error''))) ''error'' = Inr (JStr ''string error'')"
    "get_prop (trySafe (throwing (JNum 404))) ''error'' = Inr (JNum 404)"
    "get_prop (trySafe (throwing
        (JObject [(''code'', JNum 404), (''reason'', JStr ''User not found'')]))) ''error'' =
      Inr (JObject [(''code'', JNum 404), (''reason'', JStr ''User not found'')])"
    "\<exists>r. fate (promise_of (trySafe (returning (JPromise ?rejected)))) = Fulfilled r \<and>
         get_prop r ''error'' = Inr (JStr ''async string fail'')"
    using string_thrown [THEN conjunct1] number_thrown [THEN conjunct1]
          object_thrown [THEN conjunct1] rejected [THEN conjunct2, THEN conjunct1]
    by (auto simp: returning_def throwing_def)
  have call: "returning_at (HRef 0) [PromiseObject Unsettled] =
        (HReturns (HRef 0), [PromiseObject Unsettled]) \<and>
      instanceof_Promise_at [PromiseObject Unsettled] (HRef 0)"
    by (simp add: returning_at_def instanceof_Promise_at_def)
  have later: "length [PromiseObject Unsettled] + 2 \<le> length ?later \<and>
      ?later ! 0 = PromiseObject (Rejected (HRef 3)) \<and>
      ?later ! (length [PromiseObject Unsettled] + 1) = PromiseObject Unsettled"
    by simp
  note on_promise =
    rejected [THEN conjunct2, THEN conjunct2, THEN conjunct2, THEN mp, OF call]
  have on_store:
    "trySafe_store (throwing_at (HStr ''string error'')) [] =
       (HRef 0, [Object [(''ok'', HBool False), (''error'', HStr ''string error'')]], None)"
    "trySafe_store (throwing_new ?plain) [] =
       (HRef 1, [?plain, Object [(''ok'', HBool False), (''error'', HRef 0)]], None)"
    "trySafe_store (returning_at (HRef 0)) [PromiseObject Unsettled] =
       (HRef 2, [PromiseObject Unsettled, PromiseObject Unsettled, PromiseObject Unsettled],
        Some (0, 1, 2))"
    using string_thrown [THEN conjunct2, THEN conjunct2, THEN conjunct1]
          object_thrown [THEN conjunct2, THEN conjunct2, THEN conjunct1]
          on_promise [THEN conjunct1]
    by (simp_all add: throwing_at_def throwing_new_def)
  note after = on_promise [THEN conjunct2, rule_format, OF later]
  have settled:
    "run_reaction (0, 1, 2) ?later ! 2 = PromiseObject (Fulfilled (HRef 4))"
    "run_reaction (0, 1, 2) ?later ! 4 = Object [(''ok'', HBool False), (''error'', HRef 3)]"
    using after [THEN conjunct1] after [THEN conjunct2, THEN conjunct1]
    by (simp_all add: eval_nat_numeral)
  have untouched:
    "run_reaction (0, 1, 2) ?later ! 3 = ErrorObject ''Error'' ''async boom''"
    using after [THEN conjunct2, THEN conjunct2, THEN conjunct2, rule_format, of 3]
    by (simp add: eval_nat_numeral)
  show ?thesis
    using by_content on_store settled untouched by simp
qed

section \<open>The two variants of the wrapper\<close>




section \<open>Which results are treated as asynchronous\<close>

text \<open>
  C5, as the specification states it, fails: the test of the wrapper is
  \<open>result instanceof Promise\<close>, so a thenable that is not a promise (an object with a
  function under \<open>then\<close>) is not awaited. It comes back at once, as the \<open>value\<close> of a
  success record.
\<close>

theorem trySafe_thenable_counterexample:
  "is_thenable (JObject [(''then'', JFunction ''(resolve) => resolve(1)'')]) \<and>
   \<not> instanceof_Promise
       (trySafe (returning (JObject [(''then'', JFunction ''(resolve) => resolve(1)'')]))) \<and>
   trySafe (returning (JObject [(''then'', JFunction ''(resolve) => resolve(1)'')])) =
     Result_ok (JObject [(''then'', JFunction ''(resolve) => resolve(1)'')])"
  by (simp add: trySafe_def returning_def Result_ok_def)

text \<open>
  C5, amended. The dispatch is on being an instance of \<open>Promise\<close>: when the callable
  returns a promise, \<open>trySafe\<close> returns a promise that is pending at that moment; when it
  returns anything else, a thenable that is not a promise included, \<open>trySafe\<close> returns the
  success record holding that value, which is not a promise.
\<close>

theorem trySafe_dispatch:
  "fn () = Returns v \<Longrightarrow>
     (instanceof_Promise v \<longrightarrow>
        instanceof_Promise (trySafe fn) \<and> state_now (promise_of (trySafe fn)) = Unsettled) \<and>
     (\<not> instanceof_Promise v \<longrightarrow>
        trySafe fn = Result_ok v \<and> \<not> instanceof_Promise (trySafe fn))"
  by (cases v) (simp_all add: trySafe_def Result_ok_def state_now_wrapped)

theorem trySafe_dispatch_witness:
  "instanceof_Promise (trySafe (returning (JPromise (Promise Unsettled (Fulfilled (JNum 1)))))) \<and>
   state_now (promise_of (trySafe (returning (JPromise (Promise Unsettled (Fulfilled (JNum 1))))))) =
     Unsettled \<and>
   trySafe (returning (JObject [(''then'', JFunction ''(resolve) => resolve(1)'')])) =
     JObject [(''ok'', JBool True),
              (''value'', JObject [(''then'', JFunction ''(resolve) => resolve(1)'')])] \<and>
   trySafe (returning (JNum 42)) = JObject [(''ok'', JBool True), (''value'', JNum 42)]"
  using trySafe_dispatch [of "returning (JPromise (Promise Unsettled (Fulfilled (JNum 1))))"
                             "JPromise (Promise Unsettled (Fulfilled (JNum 1)))"]
        trySafe_dispatch [of "returning (JObject [(''then'', JFunction ''(resolve) => resolve(1)'')])"
                             "JObject [(''then'', JFunction ''(resolve) => resolve(1)'')]"]
        trySafe_dispatch [of "returning (JNum 42)" "JNum 42"]
  by (simp add: returning_def Result_ok_def)

section \<open>The Result module\<close>

text \<open>
  C6. \<open>Result.ok(v)\<close> is the record \<open>{ ok: true, value: v }\<close>: its flag reads \<open>true\<close> and
  its \<open>value\<close> reads \<open>v\<close>, for every \<open>v\<close>; \<open>undefined\<close>, \<open>null\<close> and another outcome are
  stored as they are. \<open>Result.err(e)\<close> is the record \<open>{ ok: false, error: e }\<close>: its flag
  reads \<open>false\<close> and its \<open>error\<close> reads \<open>e\<close>. Neither constructor has a failing branch.
\<close>

theorem Result_constructors:
  "Result_ok v = JObject [(''ok'', JBool True), (''value'', v)] \<and>
   get_prop (Result_ok v) ''ok'' = Inr (JBool True) \<and>
   get_prop (Result_ok v) ''value'' = Inr v \<and>
   get_prop (Result_ok JUndefined) ''value'' = Inr JUndefined \<and>
   get_prop (Result_ok JNull) ''value'' = Inr JNull \<and>
   get_prop (Result_ok (Result_ok v)) ''value'' = Inr (Result_ok v) \<and>
   get_prop (Result_ok (Result_err e)) ''value'' = Inr (Result_err e) \<and>
   Result_err e = JObject [(''ok'', JBool False), (''error'', e)] \<and>
   get_prop (Result_err e) ''ok'' = Inr (JBool False) \<and>
   get_prop (Result_err e) ''error'' = Inr e"
  by (simp add: Result_ok_def Result_err_def)

text \<open>
  C7. On \<open>Result.ok(v)\<close>, \<open>isOk\<close> returns \<open>true\<close> and \<open>isErr\<close> returns \<open>false\<close>; on
  \<open>Result.err(e)\<close>, \<open>isErr\<close> returns \<open>true\<close> and \<open>isOk\<close> returns \<open>false\<close>.
\<close>

theorem guards_on_constructors:
  "isOk (Result_ok v) = Inr (JBool True) \<and>
   isErr (Result_ok v) = Inr (JBool False) \<and>
   isErr (Result_err e) = Inr (JBool True) \<and>
   isOk (Result_err e) = Inr (JBool False)"
  by (simp add: isOk_def isErr_def Result_ok_def Result_err_def)

text \<open>
  C8. \<open>unwrapOr\<close> of \<open>Result.ok(v)\<close> is \<open>v\<close> and \<open>unwrapOr\<close> of \<open>Result.err(e)\<close> is the
  default, whatever the default is; and on every value of type \<open>Result\<close>, of either
  variant, \<open>unwrapOr\<close> returns a value: it does not throw.
\<close>

theorem unwrapOr_total:
  "unwrapOr (Result_ok v) d = Inr v \<and>
   unwrapOr (Result_err e) d = Inr d \<and>
   (is_Result r \<longrightarrow> (\<exists>x. unwrapOr r d = Inr x))"
proof (intro conjI impI)
  show "unwrapOr (Result_ok v) d = Inr v"
    by (simp add: unwrapOr_def Result_ok_def)
  show "unwrapOr (Result_err e) d = Inr d"
    by (simp add: unwrapOr_def Result_err_def)
next
  assume "is_Result r"
  then show "\<exists>x. unwrapOr r d = Inr x"
    by (cases r rule: is_Result_cases) (simp_all add: unwrapOr_def)
qed

theorem unwrapOr_total_witness:
  "is_Result (JObject [(''ok'', JBool True), (''value'', JNum 42)]) \<and>
   unwrapOr (JObject [(''ok'', JBool True), (''value'', JNum 42)]) (JNum 0) = Inr (JNum 42) \<and>
   is_Result (JObject [(''ok'', JBool False), (''error'', JStr ''oops'')]) \<and>
   unwrapOr (JObject [(''ok'', JBool False), (''error'', JStr ''oops'')]) (JNum 100) =
     Inr (JNum 100)"
  using unwrapOr_total [of "JNum 42" "JNum 0" "JStr ''oops''"
                           "JObject [(''ok'', JBool True), (''value'', JNum 42)]"]
        unwrapOr_total [of "JNum 42" "JNum 100" "JStr ''oops''"
                           "JObject [(''ok'', JBool False), (''error'', JStr ''oops'')]"]
  by (simp add: Result_ok_def Result_err_def)

text \<open>
  C9. \<open>isOk\<close>, \<open>isErr\<close> and \<open>unwrapOr\<close> decide on the flag \<open>ok\<close> alone. Two objects with
  the same flag get the same answer from \<open>isOk\<close> and from \<open>isErr\<close>, whatever payload
  fields they have. With the flag \<open>true\<close>, \<open>unwrapOr\<close> returns what reading \<open>value\<close>
  gives, also when that is \<open>undefined\<close>; with the flag \<open>false\<close> it returns the default,
  also when a \<open>value\<close> is there. So \<open>unwrapOr(Result.ok(undefined), d)\<close> is \<open>undefined\<close>,
  not \<open>d\<close>, and \<open>isOk(Result.ok(undefined))\<close> is \<open>true\<close>.
\<close>

theorem discriminant_decides:
  "(map_of ps ''ok'' = map_of qs ''ok'' \<longrightarrow>
      isOk (JObject ps) = isOk (JObject qs) \<and> isErr (JObject ps) = isErr (JObject qs)) \<and>
   (map_of ps ''ok'' = Some (JBool True) \<longrightarrow>
      isOk (JObject ps) = Inr (JBool True) \<and>
      isErr (JObject ps) = Inr (JBool False) \<and>
      unwrapOr (JObject ps) d = get_prop (JObject ps) ''value'') \<and>
   (map_of ps ''ok'' = Some (JBool False) \<longrightarrow>
      isOk (JObject ps) = Inr (JBool False) \<and>
      isErr (JObject ps) = Inr (JBool True) \<and>
      unwrapOr (JObject ps) d = Inr d) \<and>
   unwrapOr (Result_ok JUndefined) d = Inr JUndefined \<and>
   isOk (Result_ok JUndefined) = Inr (JBool True)"
  by (simp add: isOk_def isErr_def unwrapOr_def Result_ok_def)

theorem discriminant_decides_witness:
  "isOk (JObject [(''ok'', JBool True)]) =
     isOk (JObject [(''ok'', JBool True), (''value'', JNum 1), (''error'', JStr ''e'')]) \<and>
   isErr (JObject [(''ok'', JBool True)]) =
     isErr (JObject [(''ok'', JBool True), (''value'', JNum 1), (''error'', JStr ''e'')]) \<and>
   unwrapOr (JObject [(''ok'', JBool True)]) (JNum 7) = Inr JUndefined \<and>
   unwrapOr (JObject [(''ok'', JBool False), (''value'', JNum 1)]) (JNum 7) = Inr (JNum 7)"
  using discriminant_decides
          [of "[(''ok'', JBool True)]"
              "[(''ok'', JBool True), (''value'', JNum 1), (''error'', JStr ''e'')]" "JNum 7"]
        discriminant_decides
          [of "[(''ok'', JBool False), (''value'', JNum 1)]" "[]" "JNum 7"]
  by simp

text \<open>
  C10. On every value of type \<open>Result\<close>, \<open>isErr\<close> returns the negation of what \<open>isOk\<close>
  returns: one of the two returns \<open>true\<close> and the other \<open>false\<close>.
\<close>

theorem isErr_negates_isOk:
  "is_Result r \<Longrightarrow>
     (isOk r = Inr (JBool True) \<and> isErr r = Inr (JBool False)) \<or>
     (isOk r = Inr (JBool False) \<and> isErr r = Inr (JBool True))"
  by (cases r rule: is_Result_cases) (simp_all add: isOk_def isErr_def)

theorem isErr_negates_isOk_witness:
  "is_Result (JObject [(''ok'', JBool True), (''value'', JStr ''yes'')]) \<and>
   isOk (JObject [(''ok'', JBool True), (''value'', JStr ''yes'')]) = Inr (JBool True) \<and>
   isErr (JObject [(''ok'', JBool True), (''value'', JStr ''yes'')]) = Inr (JBool False) \<and>
   is_Result (JObject [(''ok'', JBool False), (''error'', JStr ''no'')]) \<and>
   isOk (JObject [(''ok'', JBool False), (''error'', JStr ''no'')]) = Inr (JBool False) \<and>
   isErr (JObject [(''ok'', JBool False), (''error'', JStr ''no'')]) = Inr (JBool True)"
proof -
  have ok: "is_Result (JObject [(''ok'', JBool True), (''value'', JStr ''yes'')])"
    by simp
  have err: "is_Result (JObject [(''ok'', JBool False), (''error'', JStr ''no'')])"
    by simp
  show ?thesis
    using ok err isErr_negates_isOk [OF ok] isErr_negates_isOk [OF err]
    by (auto simp: isOk_def)
qed

end
